theory Spec2Isabelle
  imports Complex_Main
begin

section \<open>The mock LLM service (\<^verbatim>\<open>mock_llm_service.py\<close>)\<close>

text \<open>
  The program is a command-line HTTP fixture: \<^verbatim>\<open>main\<close> checks the argument count,
  converts the port, and calls \<^verbatim>\<open>run\<close>, which derives a score from the label, binds
  an \<^verbatim>\<open>HTTPServer\<close>, stores label and score on it and serves forever; every POST is
  answered by \<^verbatim>\<open>Handler.do_POST\<close> with the JSON text of the two values.

  The embedding follows the source statement by statement. What the source takes from the
  Python standard library (\<^verbatim>\<open>int\<close>, \<^verbatim>\<open>json.dumps\<close>, \<^verbatim>\<open>str.encode\<close>, the
  dispatch of \<^verbatim>\<open>BaseHTTPRequestHandler\<close>) is modelled after CPython's implementation,
  each such definition saying so. The calls a handler makes on its base class
  (\<^verbatim>\<open>send_response\<close>, \<^verbatim>\<open>send_header\<close>, \<^verbatim>\<open>end_headers\<close>, \<^verbatim>\<open>wfile.write\<close>,
  \<^verbatim>\<open>send_error\<close>) are recorded as a list of calls: the response of a request is the list
  of calls its handler made, in order. Of the way the library writes these calls to the
  socket, the model has what decides whether a client receives them: \<^verbatim>\<open>send_response\<close>,
  \<^verbatim>\<open>send_header\<close> and \<^verbatim>\<open>end_headers\<close> write nothing for a request whose version is
  \<^verbatim>\<open>HTTP/0.9\<close>, so the status and the headers are read off the calls together with the
  version of the request. The \<^verbatim>\<open>Server\<close> and \<^verbatim>\<open>Date\<close> headers that the library adds,
  the error page of \<^verbatim>\<open>send_error\<close>, requests that the base handler rejects while it
  parses them (they never reach a handler method) and connections that fail are not part of
  the model.
\<close>

subsection \<open>Strings\<close>

text \<open>
  A Python \<^verbatim>\<open>str\<close> is a sequence of code points, here natural numbers below
  \<^verbatim>\<open>0x110000\<close>. Text that is known to stay within Latin-1 (the request line, header
  names, the output of the JSON encoder) and byte strings are HOL strings, whose characters
  are the 256 byte values.
\<close>

type_synonym pystr = "nat list"

type_synonym bytes = string

definition asc :: "string \<Rightarrow> pystr" where
  "asc s = map of_char s"




text \<open>Decimal and hexadecimal digits, \<^verbatim>\<open>str(n)\<close> for an integer.\<close>

definition digit_char :: "nat \<Rightarrow> char" where
  "digit_char d = ''0123456789'' ! d"

fun str_nat :: "nat \<Rightarrow> string" where
  "str_nat n = (if n < 10 then [digit_char n] else str_nat (n div 10) @ [digit_char (n mod 10)])"

declare str_nat.simps [simp del]

definition str_int :: "int \<Rightarrow> string" where
  "str_int i = (if i < 0 then CHR ''-'' # str_nat (nat (- i)) else str_nat (nat i))"

subsection \<open>Exceptions\<close>

datatype py_exception =
    SystemExit int
  | ValueError
  | OverflowError
  | OSError
  | UnicodeEncodeError

subsection \<open>The environment\<close>

text \<open>
  What the program takes from its surroundings and the source does not determine: the
  Unicode database of the interpreter (which code points above ASCII are white space,
  which are decimal digits and of what value), its limit on the digits of an integer
  string (\<^verbatim>\<open>sys.get_int_max_str_digits()\<close>, 0 for no limit), which code points above
  ASCII the encoding of standard output can write, and which ports the operating system
  grants.
\<close>

record environment =
  is_space :: "nat \<Rightarrow> bool"
  decimal_of :: "nat \<Rightarrow> nat option"
  int_max_str_digits :: nat
  stdout_encodes :: "nat \<Rightarrow> bool"
  can_bind :: "int \<Rightarrow> bool"

subsection \<open>The conversion \<^verbatim>\<open>int(sys.argv[2])\<close>\<close>

text \<open>
  Model of the library's \<^verbatim>\<open>int(str)\<close>, after CPython's \<^verbatim>\<open>PyLong_FromUnicodeObject\<close>
  and \<^verbatim>\<open>long_from_string_base\<close> with base 10. It reads the Unicode tables and the
  digit limit of the environment.
\<close>

text \<open>
  \<^verbatim>\<open>_PyUnicode_TransformDecimalAndSpaceToASCII\<close>: an ASCII string is kept; otherwise every
  non-ASCII space becomes a blank, every non-ASCII decimal digit its ASCII digit, and the
  string is cut after a \<^verbatim>\<open>?\<close> at the first other non-ASCII character.
\<close>

fun transform_decimal_and_space :: "environment \<Rightarrow> pystr \<Rightarrow> pystr" where
  "transform_decimal_and_space E [] = []"
| "transform_decimal_and_space E (ch # s) =
     (if ch < 127 then ch # transform_decimal_and_space E s
      else if is_space E ch then 32 # transform_decimal_and_space E s
      else (case decimal_of E ch of
              None \<Rightarrow> [63]
            | Some d \<Rightarrow> (48 + d) # transform_decimal_and_space E s))"

definition Py_ISSPACE :: "nat \<Rightarrow> bool" where
  "Py_ISSPACE c = (c = 32 \<or> (9 \<le> c \<and> c \<le> 13))"

definition is_digit10 :: "nat \<Rightarrow> bool" where
  "is_digit10 c = (48 \<le> c \<and> c \<le> 57)"

text \<open>
  The scan of \<^verbatim>\<open>long_from_string_base\<close> over digits and underscores: \<open>prev\<close> is the
  character before, \<open>digits\<close> counts the digits, \<open>acc\<close> is their value. It stops at the
  first other character and fails on a double underscore.
\<close>

fun scan_digits :: "nat \<Rightarrow> nat \<Rightarrow> nat \<Rightarrow> pystr \<Rightarrow> (nat \<times> nat \<times> nat \<times> pystr) option" where
  "scan_digits prev digits acc [] = Some (prev, digits, acc, [])"
| "scan_digits prev digits acc (c # s) =
     (if c = 95 then (if prev = 95 then None else scan_digits c digits acc s)
      else if is_digit10 c then scan_digits c (Suc digits) (acc * 10 + (c - 48)) s
      else Some (prev, digits, acc, c # s))"

definition long_from_string_base :: "environment \<Rightarrow> pystr \<Rightarrow> py_exception + nat" where
  "long_from_string_base E str =
     (case str of
        [] \<Rightarrow> Inl ValueError
      | c # _ \<Rightarrow>
          if c = 95 then Inl ValueError
          else (case scan_digits 0 0 0 str of
                  None \<Rightarrow> Inl ValueError
                | Some (prev, digits, acc, rest) \<Rightarrow>
                    if prev = 95 then Inl ValueError
                    else if digits = 0 then Inl ValueError
                    else if dropWhile Py_ISSPACE rest \<noteq> [] then Inl ValueError
                    else if 640 < digits \<and> 0 < int_max_str_digits E
                            \<and> int_max_str_digits E < digits then Inl ValueError
                    else Inr acc))"

definition PyLong_FromString :: "environment \<Rightarrow> pystr \<Rightarrow> py_exception + int" where
  "PyLong_FromString E str =
     (let s1 = dropWhile Py_ISSPACE str;
          (negative, s2) =
            (case s1 of
               [] \<Rightarrow> (False, s1)
             | c # r \<Rightarrow> if c = 43 then (False, r) else if c = 45 then (True, r) else (False, s1))
      in case long_from_string_base E s2 of
           Inl e \<Rightarrow> Inl e
         | Inr z \<Rightarrow> Inr (if negative then - int z else int z))"

definition py_int :: "environment \<Rightarrow> pystr \<Rightarrow> py_exception + int" where
  "py_int E u =
     PyLong_FromString E
       (if list_all (\<lambda>ch. ch < 128) u then u else transform_decimal_and_space E u)"

subsection \<open>\<^verbatim>\<open>json.dumps\<close> and \<^verbatim>\<open>str.encode\<close>\<close>

text \<open>
  Model of the library's \<^verbatim>\<open>json.dumps\<close> with its default settings, after
  \<^verbatim>\<open>json/encoder.py\<close>: strings go through \<^verbatim>\<open>py_encode_basestring_ascii\<close>, floats
  through \<^verbatim>\<open>float.__repr__\<close>, the items of a dictionary are written in insertion order
  with the separators \<^verbatim>\<open>", "\<close> and \<^verbatim>\<open>": "\<close>.
\<close>

definition backslash :: char where
  "backslash = CHR 0x5C"

definition dquote :: char where
  "dquote = CHR 0x22"

definition hex_char :: "nat \<Rightarrow> char" where
  "hex_char d = ''0123456789abcdef'' ! d"

fun hex_digits :: "nat \<Rightarrow> string" where
  "hex_digits n = (if n < 16 then [hex_char n] else hex_digits (n div 16) @ [hex_char (n mod 16)])"

declare hex_digits.simps [simp del]

text \<open>\<^verbatim>\<open>'{0:04x}'.format(n)\<close>: lower-case hexadecimal, padded with zeros to four digits.\<close>

definition format_04x :: "nat \<Rightarrow> string" where
  "format_04x n = replicate (4 - length (hex_digits n)) (CHR ''0'') @ hex_digits n"

text \<open>
  \<^verbatim>\<open>ESCAPE_DCT\<close>: the seven short escapes, and \<^verbatim>\<open>\u00XX\<close> for the other control
  characters below \<^verbatim>\<open>0x20\<close>.
\<close>

definition ESCAPE_DCT :: "nat \<Rightarrow> string option" where
  "ESCAPE_DCT n =
     (if n = 0x5C then Some [backslash, backslash]
      else if n = 0x22 then Some [backslash, dquote]
      else if n = 8 then Some [backslash, CHR ''b'']
      else if n = 12 then Some [backslash, CHR ''f'']
      else if n = 10 then Some [backslash, CHR ''n'']
      else if n = 13 then Some [backslash, CHR ''r'']
      else if n = 9 then Some [backslash, CHR ''t'']
      else if n < 0x20 then Some (backslash # CHR ''u'' # format_04x n)
      else None)"

definition replace :: "nat \<Rightarrow> string" where
  "replace n =
     (case ESCAPE_DCT n of
        Some r \<Rightarrow> r
      | None \<Rightarrow>
          if n < 0x10000 then backslash # CHR ''u'' # format_04x n
          else
            (let m = n - 0x10000;
                 s1 = or 0xD800 (and (drop_bit 10 m) 0x3FF);
                 s2 = or 0xDC00 (and m 0x3FF)
             in backslash # CHR ''u'' # format_04x s1 @ backslash # CHR ''u'' # format_04x s2))"

text \<open>
  \<^verbatim>\<open>ESCAPE_ASCII\<close> matches a backslash, a double quote and everything outside the
  range from blank to tilde; every match is replaced, every other character is kept.
\<close>

definition ESCAPE_ASCII :: "nat \<Rightarrow> bool" where
  "ESCAPE_ASCII n = (n = 0x5C \<or> n = 0x22 \<or> \<not> (0x20 \<le> n \<and> n \<le> 0x7E))"

definition escape_ascii_sub :: "pystr \<Rightarrow> string" where
  "escape_ascii_sub s = concat (map (\<lambda>n. if ESCAPE_ASCII n then replace n else [char_of n]) s)"

definition py_encode_basestring_ascii :: "pystr \<Rightarrow> string" where
  "py_encode_basestring_ascii s = dquote # escape_ascii_sub s @ [dquote]"

text \<open>
  \<^verbatim>\<open>float.__repr__\<close> on a float of integral value below \<^verbatim>\<open>1e16\<close> in magnitude: the
  integer, followed by \<^verbatim>\<open>.0\<close>. The floats of this program are the three literals
  \<^verbatim>\<open>-1.0\<close>, \<^verbatim>\<open>0.0\<close> and \<^verbatim>\<open>1.0\<close>; the shortest-digits printing of other floats
  is not modelled.
\<close>

definition float_repr :: "real \<Rightarrow> string" where
  "float_repr x = (if x < 0 then ''-'' else '''') @ str_nat (nat \<lfloor>\<bar>x\<bar>\<rfloor>) @ ''.0''"

datatype pyval = PyFloat real | PyStr pystr

fun json_value :: "pyval \<Rightarrow> string" where
  "json_value (PyFloat x) = float_repr x"
| "json_value (PyStr s) = py_encode_basestring_ascii s"

fun join :: "string \<Rightarrow> string list \<Rightarrow> string" where
  "join sep [] = []"
| "join sep [x] = x"
| "join sep (x # y # ys) = x @ sep @ join sep (y # ys)"

definition json_dumps :: "(pystr \<times> pyval) list \<Rightarrow> string" where
  "json_dumps d =
     ''{'' @ join '', '' (map (\<lambda>(k, v). py_encode_basestring_ascii k @ '': '' @ json_value v) d)
       @ ''}''"

text \<open>
  \<^verbatim>\<open>str.encode()\<close>, that is UTF-8, on text within Latin-1: one byte for an ASCII
  character, two bytes otherwise.
\<close>

definition utf8_char :: "char \<Rightarrow> bytes" where
  "utf8_char c =
     (if (of_char c :: nat) < 128 then [c]
      else [char_of (192 + (of_char c :: nat) div 64), char_of (128 + (of_char c :: nat) mod 64)])"

definition str_encode :: "string \<Rightarrow> bytes" where
  "str_encode s = concat (map utf8_char s)"

subsection \<open>The server object and the request handler\<close>

text \<open>
  The \<^verbatim>\<open>HTTPServer\<close> object carries the two attributes \<^verbatim>\<open>run\<close> stores on it. A
  request is what \<^verbatim>\<open>parse_request\<close> of the base handler leaves for the handler: method,
  path, version, headers, and the unread rest of the input stream.
\<close>

record server =
  server_port :: int
  label :: pystr
  score :: real

record request =
  command :: string
  path :: string
  request_version :: string
  headers :: "(string \<times> string) list"
  rfile :: bytes

datatype call =
    Send_response nat
  | Send_header string string
  | End_headers
  | Wfile_write bytes
  | Send_error nat string string

text \<open>
  \<^verbatim>\<open>Handler.do_POST\<close> (lines 6 to 14). It reads the two attributes of the server,
  nothing of the request, and assigns nothing: the server is returned as it was.
\<close>

definition do_POST :: "server \<Rightarrow> request \<Rightarrow> server \<times> call list" where
  "do_POST srv rq =
     (let response = [(asc ''score'', PyFloat (score srv)), (asc ''label'', PyStr (label srv))]
      in (srv,
          [Send_response 200,
           Send_header ''Content-type'' ''application/json'',
           End_headers,
           Wfile_write (str_encode (json_dumps response))]))"

text \<open>
  The dispatch of \<^verbatim>\<open>BaseHTTPRequestHandler.handle_one_request\<close> on a parsed request:
  the method \<^verbatim>\<open>'do_' + command\<close> is called if the handler has it, and
  \<^verbatim>\<open>send_error(501, "Unsupported method (%r)" % command)\<close> answers otherwise
  (recorded with the format and its argument apart). \<^verbatim>\<open>Handler\<close> defines
  \<^verbatim>\<open>do_POST\<close>; its base classes define no attribute whose name starts with
  \<^verbatim>\<open>do_\<close>.
\<close>

definition Handler_methods :: "string list" where
  "Handler_methods = [''do_POST'']"

definition handle_one_request :: "server \<Rightarrow> request \<Rightarrow> server \<times> call list" where
  "handle_one_request srv rq =
     (let mname = ''do_'' @ command rq
      in if mname \<notin> set Handler_methods
         then (srv, [Send_error 501 ''Unsupported method (%r)'' (command rq)])
         else do_POST srv rq)"

text \<open>
  \<^verbatim>\<open>serve_forever\<close> handles the requests one after the other, each with the server as
  the one before left it. The loop has no exit; the model runs it over the requests that
  have arrived so far and returns the server and the responses.
\<close>

fun serve_forever :: "server \<Rightarrow> request list \<Rightarrow> server \<times> call list list" where
  "serve_forever srv [] = (srv, [])"
| "serve_forever srv (rq # rqs) =
     (let (srv1, out) = handle_one_request srv rq;
          (srv2, outs) = serve_forever srv1 rqs
      in (srv2, out # outs))"

subsection \<open>Startup: \<^verbatim>\<open>run\<close> and the main block\<close>

text \<open>
  What the process does is a list of events (a line printed to standard output, the
  listening socket bound, a request handled) and the way it ends: with an exception that
  nothing catches, \<^verbatim>\<open>sys.exit(n)\<close> being \<^verbatim>\<open>SystemExit n\<close>, or still serving.
\<close>

datatype event =
    Printed pystr
  | Bound int
  | Handled "call list"

datatype ending =
    Raised py_exception
  | Serving server

text \<open>
  The exit status of the process: the argument of \<^verbatim>\<open>sys.exit\<close>, 1 after any other
  uncaught exception, none while it serves.
\<close>

fun exit_status :: "ending \<Rightarrow> int option" where
  "exit_status (Raised (SystemExit n)) = Some n"
| "exit_status (Raised _) = Some 1"
| "exit_status (Serving _) = None"

text \<open>
  \<^verbatim>\<open>HTTPServer(('', port), Handler)\<close> binds and listens in its constructor. The socket
  module raises \<^verbatim>\<open>OverflowError\<close> for a port outside 0 to 65535; whether the operating
  system then grants the port is up to the environment, and its refusal is an
  \<^verbatim>\<open>OSError\<close>.
\<close>

definition HTTPServer_init :: "environment \<Rightarrow> int \<Rightarrow> py_exception + int" where
  "HTTPServer_init E port =
     (if port < 0 \<or> 65535 < port then Inl OverflowError
      else if can_bind E port then Inr port
      else Inl OSError)"

text \<open>
  \<^verbatim>\<open>print(s)\<close> writes a line to standard output, or raises
  \<^verbatim>\<open>UnicodeEncodeError\<close> if the encoding of the stream cannot write a character of
  \<open>s\<close>; every encoding writes ASCII.
\<close>

definition py_print :: "environment \<Rightarrow> pystr \<Rightarrow> py_exception + event" where
  "py_print E s =
     (if list_all (\<lambda>c. c < 128 \<or> stdout_encodes E c) s then Inr (Printed s)
      else Inl UnicodeEncodeError)"

text \<open>\<^verbatim>\<open>run(label, port)\<close> (lines 16 to 30).\<close>

definition run :: "environment \<Rightarrow> request list \<Rightarrow> pystr \<Rightarrow> int \<Rightarrow> event list \<times> ending" where
  "run E reqs lab port =
     (let sc = (if lab = asc ''left'' then - 1.0
                else if lab = asc ''center'' then 0.0
                else if lab = asc ''right'' then 1.0
                else 0.0)
      in case HTTPServer_init E port of
           Inl e \<Rightarrow> ([], Raised e)
         | Inr _ \<Rightarrow>
             (let srv = \<lparr>server_port = port, label = lab, score = sc\<rparr>;
                  msg = asc ''Starting mock LLM service for '' @ lab @ asc '' on port ''
                          @ asc (str_int port) @ asc ''...''
              in case py_print E msg of
                   Inl e \<Rightarrow> ([Bound port], Raised e)
                 | Inr printed \<Rightarrow>
                     (let (srv', outs) = serve_forever srv reqs
                      in (Bound port # printed # map Handled outs, Serving srv'))))"

text \<open>The block under \<^verbatim>\<open>if __name__ == "__main__"\<close> (lines 32 to 38).\<close>

definition usage :: string where
  "usage = ''Usage: python mock_llm_service.py <label> <port>''"

definition main :: "environment \<Rightarrow> request list \<Rightarrow> pystr list \<Rightarrow> event list \<times> ending" where
  "main E reqs argv =
     (if length argv \<noteq> 3
      then (case py_print E (asc usage) of
              Inl e \<Rightarrow> ([], Raised e)
            | Inr printed \<Rightarrow> ([printed], Raised (SystemExit 1)))
      else
        (let lab = argv ! 1
         in case py_int E (argv ! 2) of
              Inl e \<Rightarrow> ([], Raised e)
            | Inr port \<Rightarrow> run E reqs lab port))"

subsection \<open>Reading a response\<close>

text \<open>
  What a client receives, read off the calls of the handler and the version of the request
  (\<^verbatim>\<open>self.request_version\<close>, the third word of the request line, or \<^verbatim>\<open>HTTP/0.9\<close>
  for a request line of two words). The library's \<^verbatim>\<open>send_response_only\<close>,
  \<^verbatim>\<open>send_header\<close> and \<^verbatim>\<open>end_headers\<close> each start with
  \<^verbatim>\<open>if self.request_version != 'HTTP/0.9'\<close> and write nothing otherwise; what the
  handler passes to \<^verbatim>\<open>wfile.write\<close> is written in either case.
\<close>

text \<open>
  The code of the status line: that of the first \<^verbatim>\<open>send_response\<close> or
  \<^verbatim>\<open>send_error\<close> (which calls \<^verbatim>\<open>send_response\<close>) that writes one. There is none for
  a request of version \<^verbatim>\<open>HTTP/0.9\<close>.
\<close>

fun status_of :: "string \<Rightarrow> call list \<Rightarrow> nat option" where
  "status_of version [] = None"
| "status_of version (Send_response code # cs) =
     (if version \<noteq> ''HTTP/0.9'' then Some code else status_of version cs)"
| "status_of version (Send_error code fmt arg # cs) =
     (if version \<noteq> ''HTTP/0.9'' then Some code else status_of version cs)"
| "status_of version (c # cs) = status_of version cs"

definition lower_char :: "char \<Rightarrow> char" where
  "lower_char c =
     (case map_of (zip ''ABCDEFGHIJKLMNOPQRSTUVWXYZ'' ''abcdefghijklmnopqrstuvwxyz'') c of
        Some l \<Rightarrow> l
      | None \<Rightarrow> c)"

text \<open>
  The value received for a header that the handler sends with \<^verbatim>\<open>send_header\<close>, looked
  up by its name without regard to case, as HTTP has it. For a request of version
  \<^verbatim>\<open>HTTP/0.9\<close> no header is written. (The headers that the library sends by itself,
  \<^verbatim>\<open>Server\<close> and \<^verbatim>\<open>Date\<close> in \<^verbatim>\<open>send_response\<close> and those of the error page in
  \<^verbatim>\<open>send_error\<close>, are not among the calls.)
\<close>

fun header_of :: "string \<Rightarrow> string \<Rightarrow> call list \<Rightarrow> string option" where
  "header_of version name [] = None"
| "header_of version name (Send_header keyword v # cs) =
     (if version \<noteq> ''HTTP/0.9'' \<and> map lower_char keyword = map lower_char name then Some v
      else header_of version name cs)"
| "header_of version name (c # cs) = header_of version name cs"

text \<open>
  The bytes that the handler writes with \<^verbatim>\<open>wfile.write\<close>, whatever the version of the
  request. (The error page that \<^verbatim>\<open>send_error\<close> writes is the library's and not among
  them.)
\<close>

fun body_of :: "call list \<Rightarrow> bytes" where
  "body_of [] = []"
| "body_of (Wfile_write b # cs) = b @ body_of cs"
| "body_of (c # cs) = body_of cs"

subsection \<open>A JSON reader for the response body\<close>






























subsection \<open>Notions for the properties and the examples\<close>

text \<open>Text all of whose characters are ASCII, and a text between double quotes.\<close>

definition is_ascii :: "string \<Rightarrow> bool" where
  "is_ascii s = list_all (\<lambda>c. (of_char c :: nat) < 128) s"

definition quoted :: "string \<Rightarrow> string" where
  "quoted s = dquote # s @ [dquote]"

text \<open>The characters of which the ASCII strings that \<^verbatim>\<open>int\<close> accepts consist.\<close>

definition int_char :: "nat \<Rightarrow> bool" where
  "int_char c = (is_digit10 c \<or> c = 95 \<or> c = 43 \<or> c = 45 \<or> Py_ISSPACE c)"



text \<open>
  An environment for the examples: a terminal that writes every code point but the
  surrogates, an excerpt of the Unicode tables, the default digit limit, and port 80
  refused.
\<close>

definition example_env :: environment where
  "example_env =
     \<lparr>is_space = (\<lambda>c. c \<in> {0x85, 0xA0, 0x2028, 0x2029, 0x3000}),
      decimal_of = (\<lambda>c. if 0x660 \<le> c \<and> c \<le> 0x669 then Some (c - 0x660) else None),
      int_max_str_digits = 4300,
      stdout_encodes = (\<lambda>c. c < 0x110000 \<and> \<not> (0xD800 \<le> c \<and> c \<le> 0xDFFF)),
      can_bind = (\<lambda>p. p \<noteq> 80)\<rparr>"

section \<open>Properties\<close>

subsection \<open>The encoder writes ASCII\<close>

lemma is_ascii_simps [simp]:
  "is_ascii []"
  "is_ascii (c # s) = ((of_char c :: nat) < 128 \<and> is_ascii s)"
  "is_ascii (s @ t) = (is_ascii s \<and> is_ascii t)"
  by (simp_all add: is_ascii_def)

lemma str_encode_ascii:
  "is_ascii s \<Longrightarrow> str_encode s = s"
  by (induction s) (simp_all add: str_encode_def utf8_char_def)

lemma digit_char_ascii:
  "d < 10 \<Longrightarrow> (of_char (digit_char d) :: nat) < 128"
proof -
  assume "d < 10"
  then have "d \<in> {0, 1, 2, 3, 4, 5, 6, 7, 8, 9}" by auto
  then show ?thesis by (auto simp: digit_char_def)
qed

lemma str_nat_ascii:
  "is_ascii (str_nat n)"
proof (induction n rule: str_nat.induct)
  case (1 n)
  show ?case
  proof (cases "n < 10")
    case True
    then show ?thesis by (simp add: str_nat.simps [of n] digit_char_ascii)
  next
    case False
    with 1 show ?thesis by (simp add: str_nat.simps [of n] digit_char_ascii)
  qed
qed

lemma float_repr_ascii:
  "is_ascii (float_repr x)"
  by (simp add: float_repr_def str_nat_ascii)

lemma hex_char_ascii:
  "d < 16 \<Longrightarrow> (of_char (hex_char d) :: nat) < 128"
proof -
  assume "d < 16"
  then have "d = 0 \<or> d = 1 \<or> d = 2 \<or> d = 3 \<or> d = 4 \<or> d = 5 \<or> d = 6 \<or> d = 7 \<or> d = 8
      \<or> d = 9 \<or> d = 10 \<or> d = 11 \<or> d = 12 \<or> d = 13 \<or> d = 14 \<or> d = 15"
    by arith
  then show ?thesis by (auto simp: hex_char_def)
qed

lemma hex_digits_ascii:
  "is_ascii (hex_digits n)"
proof (induction n rule: hex_digits.induct)
  case (1 n)
  show ?case
  proof (cases "n < 16")
    case True
    then show ?thesis by (simp add: hex_digits.simps [of n] hex_char_ascii)
  next
    case False
    with 1 show ?thesis by (simp add: hex_digits.simps [of n] hex_char_ascii)
  qed
qed

lemma is_ascii_replicate:
  "is_ascii (replicate k c) = (k = 0 \<or> (of_char c :: nat) < 128)"
  by (induction k) auto

lemma format_04x_ascii:
  "is_ascii (format_04x n)"
  by (simp add: format_04x_def hex_digits_ascii is_ascii_replicate)

lemma replace_ascii:
  "is_ascii (replace n)"
  by (simp add: replace_def ESCAPE_DCT_def format_04x_ascii backslash_def dquote_def Let_def)

lemma escape_ascii_sub_ascii:
  "is_ascii (escape_ascii_sub s)"
proof (induction s)
  case Nil
  show ?case by (simp add: escape_ascii_sub_def)
next
  case (Cons n s)
  have "is_ascii (if ESCAPE_ASCII n then replace n else [char_of n])"
    by (auto simp: replace_ascii ESCAPE_ASCII_def)
  with Cons show ?case by (simp add: escape_ascii_sub_def)
qed

lemma py_encode_basestring_ascii_ascii:
  "is_ascii (py_encode_basestring_ascii s)"
  by (simp add: py_encode_basestring_ascii_def escape_ascii_sub_ascii dquote_def)

lemma json_value_ascii:
  "is_ascii (json_value v)"
  by (cases v) (simp_all add: float_repr_ascii py_encode_basestring_ascii_ascii)

lemma join_ascii:
  "is_ascii sep \<Longrightarrow> list_all is_ascii xs \<Longrightarrow> is_ascii (join sep xs)"
  by (induction sep xs rule: join.induct) simp_all

lemma json_dumps_ascii:
  "is_ascii (json_dumps d)"
proof -
  have "list_all is_ascii (map (\<lambda>(k, v). py_encode_basestring_ascii k @ '': '' @ json_value v) d)"
    by (induction d) (auto simp: py_encode_basestring_ascii_ascii json_value_ascii)
  then show ?thesis
    by (simp add: json_dumps_def join_ascii)
qed

lemma escape_ascii_sub_plain:
  "list_all (\<lambda>c. \<not> ESCAPE_ASCII (of_char c)) s \<Longrightarrow> escape_ascii_sub (asc s) = s"
  by (induction s) (simp_all add: escape_ascii_sub_def asc_def)

lemma encode_key:
  "py_encode_basestring_ascii (asc ''score'') = quoted ''score''"
  "py_encode_basestring_ascii (asc ''label'') = quoted ''label''"
  by (simp_all add: py_encode_basestring_ascii_def quoted_def escape_ascii_sub_plain ESCAPE_ASCII_def)

subsection \<open>Dispatch, the server under requests, the body of a response\<close>

lemma handle_one_request_POST:
  "command rq = ''POST'' \<Longrightarrow> handle_one_request srv rq = do_POST srv rq"
  by (simp add: handle_one_request_def Handler_methods_def)

lemma handle_one_request_other:
  "command rq \<noteq> ''POST'' \<Longrightarrow>
     handle_one_request srv rq = (srv, [Send_error 501 ''Unsupported method (%r)'' (command rq)])"
  by (simp add: handle_one_request_def Handler_methods_def)

lemma handle_one_request_server:
  "fst (handle_one_request srv rq) = srv"
  by (cases "command rq = ''POST''")
     (simp_all add: handle_one_request_POST handle_one_request_other do_POST_def)

lemma serve_forever_server:
  "fst (serve_forever srv reqs) = srv"
proof (induction reqs arbitrary: srv)
  case Nil
  show ?case by simp
next
  case (Cons rq reqs)
  obtain out where h: "handle_one_request srv rq = (srv, out)"
    using handle_one_request_server [of srv rq] by (cases "handle_one_request srv rq") simp
  obtain outs where s: "serve_forever srv reqs = (srv, outs)"
    using Cons.IH [of srv] by (cases "serve_forever srv reqs") simp
  show ?case by (simp add: h s)
qed

lemma run_serving:
  assumes "snd (run E reqs lab port) = Serving srv"
  shows "srv = \<lparr>server_port = port, label = lab,
                 score = (if lab = asc ''left'' then - 1
                          else if lab = asc ''center'' then 0
                          else if lab = asc ''right'' then 1
                          else 0)\<rparr>"
proof -
  let ?sc = "if lab = asc ''left'' then - 1.0 else if lab = asc ''center'' then 0.0
             else if lab = asc ''right'' then 1.0 else (0.0 :: real)"
  let ?srv = "\<lparr>server_port = port, label = lab, score = ?sc\<rparr>"
  obtain outs where s: "serve_forever ?srv reqs = (?srv, outs)"
    using serve_forever_server [of ?srv reqs] by (cases "serve_forever ?srv reqs") simp
  from assms s have "srv = ?srv"
    by (auto simp: run_def Let_def split: sum.splits)
  then show ?thesis
    by simp
qed

lemma float_repr_literals:
  "float_repr (- 1) = ''-1.0''" "float_repr 0 = ''0.0''" "float_repr 1 = ''1.0''"
  by (simp_all add: float_repr_def str_nat.simps digit_char_def)

lemma do_POST_body:
  "body_of (snd (do_POST srv rq)) =
     ''{'' @ quoted ''score'' @ '': '' @ float_repr (score srv) @ '', ''
       @ quoted ''label'' @ '': '' @ py_encode_basestring_ascii (label srv) @ ''}''"
proof -
  let ?d = "[(asc ''score'', PyFloat (score srv)), (asc ''label'', PyStr (label srv))]"
  have "body_of (snd (do_POST srv rq)) = str_encode (json_dumps ?d)"
    by (simp add: do_POST_def)
  also have "\<dots> = json_dumps ?d"
    by (rule str_encode_ascii) (rule json_dumps_ascii)
  also have "\<dots> = ''{'' @ quoted ''score'' @ '': '' @ float_repr (score srv) @ '', ''
       @ quoted ''label'' @ '': '' @ py_encode_basestring_ascii (label srv) @ ''}''"
    by (simp add: json_dumps_def encode_key)
  finally show ?thesis .
qed

lemma encode_plain:
  "list_all (\<lambda>c. \<not> ESCAPE_ASCII (of_char c)) s \<Longrightarrow> py_encode_basestring_ascii (asc s) = quoted s"
  by (simp add: py_encode_basestring_ascii_def quoted_def escape_ascii_sub_plain)

subsection \<open>The exceptions of the conversion and of the bind\<close>

lemma long_from_string_base_error:
  "long_from_string_base E s = Inl e \<Longrightarrow> e = ValueError"
  by (auto simp: long_from_string_base_def split: list.splits option.splits if_splits)

lemma PyLong_FromString_error:
  "PyLong_FromString E s = Inl e \<Longrightarrow> e = ValueError"
  by (auto simp: PyLong_FromString_def Let_def split: prod.splits sum.splits
           dest: long_from_string_base_error)

lemma py_int_error:
  "py_int E u = Inl e \<Longrightarrow> e = ValueError"
  unfolding py_int_def by (rule PyLong_FromString_error)

lemma HTTPServer_init_error:
  "HTTPServer_init E port = Inl e \<Longrightarrow> e = OverflowError \<or> e = OSError"
  by (auto simp: HTTPServer_init_def split: if_splits)

subsection \<open>What \<^verbatim>\<open>int\<close> accepts\<close>

lemma scan_digits_consumed:
  "scan_digits prev digits acc s = Some (p, d, a, rest) \<Longrightarrow>
     \<exists>body. s = body @ rest \<and> list_all (\<lambda>c. is_digit10 c \<or> c = 95) body
       \<and> d = digits + length (filter is_digit10 body)"
proof (induction s arbitrary: prev digits acc)
  case Nil
  then show ?case by simp
next
  case (Cons c s)
  show ?case
  proof (cases "c = 95")
    case True
    with Cons.prems have "scan_digits c digits acc s = Some (p, d, a, rest)"
      by (simp split: if_splits)
    from Cons.IH [OF this] obtain body where "s = body @ rest"
      "list_all (\<lambda>c. is_digit10 c \<or> c = 95) body" "d = digits + length (filter is_digit10 body)"
      by blast
    with True have "c # s = (c # body) @ rest \<and> list_all (\<lambda>c. is_digit10 c \<or> c = 95) (c # body)
        \<and> d = digits + length (filter is_digit10 (c # body))"
      by (simp add: is_digit10_def)
    then show ?thesis by blast
  next
    case False
    show ?thesis
    proof (cases "is_digit10 c")
      case True
      with False Cons.prems have "scan_digits c (Suc digits) (acc * 10 + (c - 48)) s = Some (p, d, a, rest)"
        by simp
      from Cons.IH [OF this] obtain body where "s = body @ rest"
        "list_all (\<lambda>c. is_digit10 c \<or> c = 95) body" "d = Suc digits + length (filter is_digit10 body)"
        by blast
      with True have "c # s = (c # body) @ rest \<and> list_all (\<lambda>c. is_digit10 c \<or> c = 95) (c # body)
          \<and> d = digits + length (filter is_digit10 (c # body))"
        by simp
      then show ?thesis by blast
    next
      case nd: False
      with False Cons.prems have "rest = c # s" "d = digits"
        by simp_all
      then have "c # s = [] @ rest \<and> list_all (\<lambda>c. is_digit10 c \<or> c = 95) []
          \<and> d = digits + length (filter is_digit10 [])"
        by simp
      then show ?thesis by blast
    qed
  qed
qed

lemma dropWhile_Nil_all:
  "dropWhile P xs = [] \<Longrightarrow> list_all P xs"
  by (simp add: list_all_iff dropWhile_eq_Nil_conv)

lemma long_from_string_base_shape:
  assumes "long_from_string_base E s = Inr z"
  shows "list_all int_char s \<and> (\<exists>c \<in> set s. is_digit10 c)"
proof -
  from assms obtain p d a rest where sc: "scan_digits 0 0 0 s = Some (p, d, a, rest)"
    and d: "d \<noteq> 0" and r: "dropWhile Py_ISSPACE rest = []"
    by (auto simp: long_from_string_base_def split: list.splits option.splits if_splits)
  from scan_digits_consumed [OF sc] obtain body where b: "s = body @ rest"
    "list_all (\<lambda>c. is_digit10 c \<or> c = 95) body" "d = 0 + length (filter is_digit10 body)"
    by blast
  from b(3) d have "filter is_digit10 body \<noteq> []"
    by auto
  then have "\<exists>c \<in> set body. is_digit10 c"
    by (simp add: filter_empty_conv)
  moreover from b(2) have "list_all int_char body"
    by (auto simp: list_all_iff int_char_def)
  moreover from dropWhile_Nil_all [OF r] have "list_all int_char rest"
    by (auto simp: list_all_iff int_char_def)
  ultimately show ?thesis
    using b(1) by auto
qed

lemma PyLong_FromString_shape:
  assumes "PyLong_FromString E str = Inr n"
  shows "list_all int_char str \<and> (\<exists>c \<in> set str. is_digit10 c)"
proof -
  define s1 where "s1 = dropWhile Py_ISSPACE str"
  have split: "str = takeWhile Py_ISSPACE str @ s1"
    by (simp add: s1_def)
  have ws: "list_all int_char (takeWhile Py_ISSPACE str)"
    by (auto simp: list_all_iff int_char_def dest: set_takeWhileD)
  have "list_all int_char s1 \<and> (\<exists>c \<in> set s1. is_digit10 c)"
  proof (cases s1)
    case Nil
    with assms show ?thesis
      by (simp add: PyLong_FromString_def s1_def [symmetric] long_from_string_base_def)
  next
    case (Cons c r)
    show ?thesis
    proof (cases "c = 43 \<or> c = 45")
      case True
      with assms Cons obtain z where "long_from_string_base E r = Inr z"
        by (auto simp: PyLong_FromString_def s1_def [symmetric] split: sum.splits)
      from long_from_string_base_shape [OF this] True Cons show ?thesis
        by (auto simp: int_char_def)
    next
      case False
      with assms Cons obtain z where "long_from_string_base E s1 = Inr z"
        by (auto simp: PyLong_FromString_def s1_def [symmetric] split: sum.splits)
      from long_from_string_base_shape [OF this] show ?thesis .
    qed
  qed
  with ws have "list_all int_char (takeWhile Py_ISSPACE str @ s1)
      \<and> (\<exists>c \<in> set (takeWhile Py_ISSPACE str @ s1). is_digit10 c)"
    by auto
  with split show ?thesis
    by simp
qed

text \<open>
  An ASCII string that \<^verbatim>\<open>int\<close> accepts consists of digits, underscores, signs and
  white space, and has a digit: every other string is rejected.
\<close>

lemma py_int_accepts_shape:
  assumes "py_int E u = Inr n" and "list_all (\<lambda>ch. ch < 128) u"
  shows "list_all int_char u \<and> (\<exists>c \<in> set u. is_digit10 c)"
  using assms PyLong_FromString_shape [of E u n] by (simp add: py_int_def)

lemma py_int_rejects:
  assumes "list_all (\<lambda>ch. ch < 128) u" and "\<not> list_all int_char u \<or> \<not> (\<exists>c \<in> set u. is_digit10 c)"
  shows "py_int E u = Inl ValueError"
proof (cases "py_int E u")
  case (Inl e)
  with py_int_error [OF Inl] show ?thesis by simp
next
  case (Inr n)
  from py_int_accepts_shape [OF Inr assms(1)] assms(2) show ?thesis by blast
qed

subsection \<open>Surrogate pairs and hexadecimal digits\<close>










subsection \<open>Reading back an encoded string\<close>












subsection \<open>Reading back the response body\<close>












subsection \<open>Examples\<close>

lemma print_usage:
  "py_print E (asc usage) = Inr (Printed (asc usage))"
  by (simp add: py_print_def usage_def asc_def)

lemma run_example:
  assumes "list_all (\<lambda>c. c < 0x110000 \<and> \<not> (0xD800 \<le> c \<and> c \<le> 0xDFFF)) lab"
  shows "run example_env [] lab 8080 =
       ([Bound 8080,
         Printed (asc ''Starting mock LLM service for '' @ lab @ asc '' on port 8080...'')],
        Serving \<lparr>server_port = 8080, label = lab,
                  score = (if lab = asc ''left'' then - 1 else if lab = asc ''center'' then 0
                           else if lab = asc ''right'' then 1 else 0)\<rparr>)"
proof -
  have "list_all (\<lambda>c. c < 128 \<or> stdout_encodes example_env c) lab"
    using assms by (simp add: example_env_def list_all_iff)
  then have "py_print example_env
      (asc ''Starting mock LLM service for '' @ lab @ asc '' on port '' @ asc (str_int 8080)
        @ asc ''...'')
    = Inr (Printed (asc ''Starting mock LLM service for '' @ lab @ asc '' on port 8080...''))"
    by (simp add: py_print_def str_int_def str_nat.simps digit_char_def asc_def)
  moreover have "HTTPServer_init example_env 8080 = Inr 8080"
    by (simp add: HTTPServer_init_def example_env_def)
  ultimately show ?thesis
    by (simp add: run_def Let_def)
qed

lemma py_int_examples:
  "py_int example_env (asc ''80'') = Inr 80"
  "py_int example_env (asc ''8080'') = Inr 8080"
  "py_int example_env (asc ''70000'') = Inr 70000"
  "py_int example_env (asc ''http'') = Inl ValueError"
  "py_int example_env (asc ''80.5'') = Inl ValueError"
  "py_int example_env (asc '''') = Inl ValueError"
  by (simp_all add: py_int_def asc_def PyLong_FromString_def Py_ISSPACE_def
        long_from_string_base_def is_digit10_def)



section \<open>The claims\<close>

text \<open>
  C1. The score is computed from the label by the fixed lookup: whenever \<^verbatim>\<open>run\<close> comes
  to serve, the server carries the label it was given and the score \<^verbatim>\<open>-1.0\<close> for
  \<^verbatim>\<open>left\<close>, \<^verbatim>\<open>0.0\<close> for \<^verbatim>\<open>center\<close>, \<^verbatim>\<open>1.0\<close> for \<^verbatim>\<open>right\<close> and \<^verbatim>\<open>0.0\<close>
  for every other label, whatever requests it has handled.
\<close>

theorem run_score_lookup:
  assumes "snd (run E reqs lab port) = Serving srv"
  shows "label srv = lab
       \<and> score srv = (if lab = asc ''left'' then - 1
                       else if lab = asc ''center'' then 0
                       else if lab = asc ''right'' then 1
                       else 0)"
proof -
  from run_serving [OF assms] have l: "label srv = lab"
    by simp
  from run_serving [OF assms] have
    "score srv = (if lab = asc ''left'' then - 1 else if lab = asc ''center'' then 0
                  else if lab = asc ''right'' then 1 else 0)"
    by (cases "lab = asc ''left''"; cases "lab = asc ''center''"; cases "lab = asc ''right''") simp_all
  with l show ?thesis
    by simp
qed

theorem run_score_lookup_witness:
  "(\<exists>srv. snd (run example_env [] (asc ''left'') 8080) = Serving srv
      \<and> label srv = asc ''left'' \<and> score srv = - 1)
   \<and> (\<exists>srv. snd (run example_env [] (asc ''center'') 8080) = Serving srv
      \<and> label srv = asc ''center'' \<and> score srv = 0)
   \<and> (\<exists>srv. snd (run example_env [] (asc ''right'') 8080) = Serving srv
      \<and> label srv = asc ''right'' \<and> score srv = 1)
   \<and> (\<exists>srv. snd (run example_env [] (asc ''foo'') 8080) = Serving srv
      \<and> label srv = asc ''foo'' \<and> score srv = 0)"
proof -
  have serving: "\<exists>srv. snd (run example_env [] (asc l) 8080) = Serving srv"
    if "list_all (\<lambda>c. (of_char c :: nat) < 128) l" for l
  proof -
    from that have "list_all (\<lambda>c. c < 0x110000 \<and> \<not> (0xD800 \<le> c \<and> c \<le> 0xDFFF)) (asc l)"
      by (simp add: asc_def list_all_iff) fastforce
    from run_example [OF this] show ?thesis
      by simp
  qed
  obtain s1 where s1: "snd (run example_env [] (asc ''left'') 8080) = Serving s1"
    using serving [of "''left''"] by auto
  obtain s2 where s2: "snd (run example_env [] (asc ''center'') 8080) = Serving s2"
    using serving [of "''center''"] by auto
  obtain s3 where s3: "snd (run example_env [] (asc ''right'') 8080) = Serving s3"
    using serving [of "''right''"] by auto
  obtain s4 where s4: "snd (run example_env [] (asc ''foo'') 8080) = Serving s4"
    using serving [of "''foo''"] by auto
  from run_score_lookup [OF s1] have "label s1 = asc ''left'' \<and> score s1 = - 1"
    by simp
  moreover from run_score_lookup [OF s2] have "label s2 = asc ''center'' \<and> score s2 = 0"
    by (simp add: asc_def)
  moreover from run_score_lookup [OF s3] have "label s3 = asc ''right'' \<and> score s3 = 1"
    by (simp add: asc_def)
  moreover from run_score_lookup [OF s4] have "label s4 = asc ''foo'' \<and> score s4 = 0"
    by (simp add: asc_def)
  ultimately show ?thesis
    using s1 s2 s3 s4 by simp
qed




text \<open>
  C3, as amended. The response does not depend on the request: two POST requests to the
  same server, both parsed by the base handler with a version other than \<^verbatim>\<open>HTTP/0.9\<close>,
  whatever their paths, versions, headers and bodies, get the same calls, which are those of
  \<^verbatim>\<open>do_POST\<close> for this server, hence the same status, which is 200, the same
  \<^verbatim>\<open>Content-Type\<close> and the same body, the JSON text of the score and the label of the
  server.
\<close>

theorem post_response_independent_of_request:
  assumes "command rq1 = ''POST''" and "command rq2 = ''POST''"
    and "request_version rq1 \<noteq> ''HTTP/0.9''" and "request_version rq2 \<noteq> ''HTTP/0.9''"
  shows "snd (handle_one_request srv rq1) = snd (handle_one_request srv rq2)
       \<and> status_of (request_version rq1) (snd (handle_one_request srv rq1)) = Some 200
       \<and> status_of (request_version rq2) (snd (handle_one_request srv rq2)) = Some 200
       \<and> header_of (request_version rq1) ''Content-Type'' (snd (handle_one_request srv rq1))
           = Some ''application/json''
       \<and> header_of (request_version rq2) ''Content-Type'' (snd (handle_one_request srv rq2))
           = Some ''application/json''
       \<and> body_of (snd (handle_one_request srv rq1)) =
           ''{'' @ quoted ''score'' @ '': '' @ float_repr (score srv) @ '', ''
             @ quoted ''label'' @ '': '' @ py_encode_basestring_ascii (label srv) @ ''}''
       \<and> body_of (snd (handle_one_request srv rq2)) =
           ''{'' @ quoted ''score'' @ '': '' @ float_repr (score srv) @ '', ''
             @ quoted ''label'' @ '': '' @ py_encode_basestring_ascii (label srv) @ ''}''"
proof -
  have "snd (do_POST srv rq1) = snd (do_POST srv rq2)"
    by (simp add: do_POST_def)
  moreover from assms(3)
  have "status_of (request_version rq1) (snd (do_POST srv rq1)) = Some 200"
    by (simp add: do_POST_def)
  moreover from assms(4)
  have "status_of (request_version rq2) (snd (do_POST srv rq2)) = Some 200"
    by (simp add: do_POST_def)
  moreover from assms(3)
  have "header_of (request_version rq1) ''Content-Type'' (snd (do_POST srv rq1))
          = Some ''application/json''"
    by (simp add: do_POST_def lower_char_def)
  moreover from assms(4)
  have "header_of (request_version rq2) ''Content-Type'' (snd (do_POST srv rq2))
          = Some ''application/json''"
    by (simp add: do_POST_def lower_char_def)
  ultimately show ?thesis
    by (simp only: handle_one_request_POST [OF assms(1)] handle_one_request_POST [OF assms(2)]
        do_POST_body)
qed

theorem post_response_independent_of_request_witness:
  "command \<lparr>command = ''POST'', path = ''/a'', request_version = ''HTTP/1.1'',
            headers = [(''Content-Type'', ''application/json'')], rfile = ''{''\<rparr> = ''POST''
   \<and> command \<lparr>command = ''POST'', path = ''/b?x=1'', request_version = ''HTTP/1.0'',
            headers = [], rfile = ''not json at all''\<rparr> = ''POST''
   \<and> request_version \<lparr>command = ''POST'', path = ''/a'', request_version = ''HTTP/1.1'',
            headers = [(''Content-Type'', ''application/json'')], rfile = ''{''\<rparr> \<noteq> ''HTTP/0.9''
   \<and> request_version \<lparr>command = ''POST'', path = ''/b?x=1'', request_version = ''HTTP/1.0'',
            headers = [], rfile = ''not json at all''\<rparr> \<noteq> ''HTTP/0.9''
   \<and> snd (handle_one_request \<lparr>server_port = 8080, label = asc ''right'', score = 1\<rparr>
          \<lparr>command = ''POST'', path = ''/a'', request_version = ''HTTP/1.1'',
           headers = [(''Content-Type'', ''application/json'')], rfile = ''{''\<rparr>)
     = snd (handle_one_request \<lparr>server_port = 8080, label = asc ''right'', score = 1\<rparr>
          \<lparr>command = ''POST'', path = ''/b?x=1'', request_version = ''HTTP/1.0'',
           headers = [], rfile = ''not json at all''\<rparr>)
   \<and> status_of ''HTTP/1.1''
        (snd (handle_one_request \<lparr>server_port = 8080, label = asc ''right'', score = 1\<rparr>
          \<lparr>command = ''POST'', path = ''/a'', request_version = ''HTTP/1.1'',
           headers = [(''Content-Type'', ''application/json'')], rfile = ''{''\<rparr>)) = Some 200
   \<and> status_of ''HTTP/1.0''
        (snd (handle_one_request \<lparr>server_port = 8080, label = asc ''right'', score = 1\<rparr>
          \<lparr>command = ''POST'', path = ''/b?x=1'', request_version = ''HTTP/1.0'',
           headers = [], rfile = ''not json at all''\<rparr>)) = Some 200
   \<and> body_of (snd (handle_one_request \<lparr>server_port = 8080, label = asc ''right'', score = 1\<rparr>
          \<lparr>command = ''POST'', path = ''/b?x=1'', request_version = ''HTTP/1.0'',
           headers = [], rfile = ''not json at all''\<rparr>))
     = ''{'' @ quoted ''score'' @ '': 1.0, '' @ quoted ''label'' @ '': '' @ quoted ''right'' @ ''}''"
proof -
  let ?rq1 = "\<lparr>command = ''POST'', path = ''/a'', request_version = ''HTTP/1.1'',
           headers = [(''Content-Type'', ''application/json'')], rfile = ''{''\<rparr>"
  let ?rq2 = "\<lparr>command = ''POST'', path = ''/b?x=1'', request_version = ''HTTP/1.0'',
           headers = [], rfile = ''not json at all''\<rparr>"
  let ?srv = "\<lparr>server_port = 8080, label = asc ''right'', score = 1\<rparr>"
  have c: "command ?rq1 = ''POST''" "command ?rq2 = ''POST''"
    and v: "request_version ?rq1 \<noteq> ''HTTP/0.9''" "request_version ?rq2 \<noteq> ''HTTP/0.9''"
    by simp_all
  note t = post_response_independent_of_request [OF c v, of ?srv]
  from t have e: "snd (handle_one_request ?srv ?rq1) = snd (handle_one_request ?srv ?rq2)"
    by (rule conjunct1)
  from t have s1: "status_of (request_version ?rq1) (snd (handle_one_request ?srv ?rq1)) = Some 200"
    and s2: "status_of (request_version ?rq2) (snd (handle_one_request ?srv ?rq2)) = Some 200"
    by blast+
  from t have "body_of (snd (handle_one_request ?srv ?rq2)) =
           ''{'' @ quoted ''score'' @ '': '' @ float_repr (score ?srv) @ '', ''
             @ quoted ''label'' @ '': '' @ py_encode_basestring_ascii (label ?srv) @ ''}''"
    by blast
  then have b: "body_of (snd (handle_one_request ?srv ?rq2)) =
      ''{'' @ quoted ''score'' @ '': 1.0, '' @ quoted ''label'' @ '': '' @ quoted ''right'' @ ''}''"
    by (simp add: float_repr_literals encode_plain ESCAPE_ASCII_def)
  from s1 have s1': "status_of ''HTTP/1.1'' (snd (handle_one_request ?srv ?rq1)) = Some 200"
    by simp
  from s2 have s2': "status_of ''HTTP/1.0'' (snd (handle_one_request ?srv ?rq2)) = Some 200"
    by simp
  show ?thesis
    by (intro conjI) (simp, simp, simp, simp, rule e, rule s1', rule s2', rule b)
qed

text \<open>
  The claim as stated fails for two POST requests that differ in the version of the request
  line alone, one of them \<^verbatim>\<open>HTTP/0.9\<close>: the base handler parses both and passes both to
  \<^verbatim>\<open>do_POST\<close>, the first is answered with status 200, the second with no status line at
  all.
\<close>

theorem post_versions_differ_counterexample:
  "command \<lparr>command = ''POST'', path = ''/'', request_version = ''HTTP/1.1'',
            headers = [], rfile = []\<rparr> = ''POST''
   \<and> command \<lparr>command = ''POST'', path = ''/'', request_version = ''HTTP/0.9'',
            headers = [], rfile = []\<rparr> = ''POST''
   \<and> status_of ''HTTP/1.1''
        (snd (handle_one_request \<lparr>server_port = 8080, label = asc ''right'', score = 1\<rparr>
          \<lparr>command = ''POST'', path = ''/'', request_version = ''HTTP/1.1'',
           headers = [], rfile = []\<rparr>)) = Some 200
   \<and> status_of ''HTTP/0.9''
        (snd (handle_one_request \<lparr>server_port = 8080, label = asc ''right'', score = 1\<rparr>
          \<lparr>command = ''POST'', path = ''/'', request_version = ''HTTP/0.9'',
           headers = [], rfile = []\<rparr>)) = None"
  by (simp add: handle_one_request_POST do_POST_def)

text \<open>
  C4. With an argument list whose length is not 3 (the program name and two arguments),
  the program prints the usage line, ends with \<^verbatim>\<open>sys.exit(1)\<close>, so with exit status 1,
  and has neither bound a socket nor handled a request.
\<close>

theorem wrong_argument_count_usage_exit:
  assumes "length argv \<noteq> 3"
  shows "main E reqs argv = ([Printed (asc usage)], Raised (SystemExit 1))
       \<and> exit_status (snd (main E reqs argv)) = Some 1
       \<and> (\<forall>p. Bound p \<notin> set (fst (main E reqs argv)))
       \<and> (\<forall>out. Handled out \<notin> set (fst (main E reqs argv)))"
proof -
  from assms have "main E reqs argv = ([Printed (asc usage)], Raised (SystemExit 1))"
    by (simp add: main_def print_usage)
  then show ?thesis
    by simp
qed

theorem wrong_argument_count_usage_exit_witness:
  "length [asc ''mock_llm_service.py''] \<noteq> 3
   \<and> main example_env [] [asc ''mock_llm_service.py'']
      = ([Printed (asc ''Usage: python mock_llm_service.py <label> <port>'')], Raised (SystemExit 1))
   \<and> length [asc ''mock_llm_service.py'', asc ''left''] \<noteq> 3
   \<and> main example_env [] [asc ''mock_llm_service.py'', asc ''left'']
      = ([Printed (asc ''Usage: python mock_llm_service.py <label> <port>'')], Raised (SystemExit 1))
   \<and> length [asc ''mock_llm_service.py'', asc ''left'', asc ''8080'', asc ''extra''] \<noteq> 3
   \<and> main example_env [] [asc ''mock_llm_service.py'', asc ''left'', asc ''8080'', asc ''extra'']
      = ([Printed (asc ''Usage: python mock_llm_service.py <label> <port>'')], Raised (SystemExit 1))"
proof -
  have a: "length [asc ''mock_llm_service.py'', asc ''left''] \<noteq> 3" by simp
  have b: "length [asc ''mock_llm_service.py'', asc ''left'', asc ''8080'', asc ''extra''] \<noteq> 3"
    by simp
  have c: "length [asc ''mock_llm_service.py''] \<noteq> 3"
    by simp
  from wrong_argument_count_usage_exit [OF a, of example_env "[]"]
    wrong_argument_count_usage_exit [OF b, of example_env "[]"]
    wrong_argument_count_usage_exit [OF c, of example_env "[]"]
  show ?thesis
    by (simp add: usage_def)
qed

text \<open>
  C5. Two consecutive POST requests to a running server get bodies that are equal byte for
  byte, and the body is a function of the label and the score of the server alone: a
  server with the same two values, on whatever port and for whatever request, writes the
  same body.
\<close>

theorem consecutive_posts_same_body:
  assumes "command rq1 = ''POST''" and "command rq2 = ''POST''"
    and "label srv' = label srv" and "score srv' = score srv"
  shows "map body_of (snd (serve_forever srv [rq1, rq2])) =
           [''{'' @ quoted ''score'' @ '': '' @ float_repr (score srv) @ '', ''
              @ quoted ''label'' @ '': '' @ py_encode_basestring_ascii (label srv) @ ''}'',
            ''{'' @ quoted ''score'' @ '': '' @ float_repr (score srv) @ '', ''
              @ quoted ''label'' @ '': '' @ py_encode_basestring_ascii (label srv) @ ''}'']
       \<and> body_of (snd (handle_one_request srv' rq2)) = body_of (snd (handle_one_request srv rq1))"
proof -
  have d: "fst (do_POST srv rq1) = srv"
    by (simp add: do_POST_def)
  have "serve_forever srv [rq1, rq2] = (srv, [snd (do_POST srv rq1), snd (do_POST srv rq2)])"
    using assms(1,2) d
    by (simp add: handle_one_request_POST split_beta Let_def do_POST_def)
  then have "map body_of (snd (serve_forever srv [rq1, rq2]))
      = [body_of (snd (do_POST srv rq1)), body_of (snd (do_POST srv rq2))]"
    by simp
  moreover have "body_of (snd (handle_one_request srv' rq2)) = body_of (snd (handle_one_request srv rq1))"
    using assms by (simp add: handle_one_request_POST do_POST_body)
  ultimately show ?thesis
    by (simp only: do_POST_body)
qed

theorem consecutive_posts_same_body_witness:
  "command \<lparr>command = ''POST'', path = ''/'', request_version = ''HTTP/1.1'',
            headers = [], rfile = ''first''\<rparr> = ''POST''
   \<and> command \<lparr>command = ''POST'', path = ''/again'', request_version = ''HTTP/1.1'',
            headers = [], rfile = ''second''\<rparr> = ''POST''
   \<and> map body_of (snd (serve_forever \<lparr>server_port = 8080, label = asc ''center'', score = 0\<rparr>
         [\<lparr>command = ''POST'', path = ''/'', request_version = ''HTTP/1.1'',
            headers = [], rfile = ''first''\<rparr>,
          \<lparr>command = ''POST'', path = ''/again'', request_version = ''HTTP/1.1'',
            headers = [], rfile = ''second''\<rparr>]))
     = [''{'' @ quoted ''score'' @ '': 0.0, '' @ quoted ''label'' @ '': '' @ quoted ''center'' @ ''}'',
        ''{'' @ quoted ''score'' @ '': 0.0, '' @ quoted ''label'' @ '': '' @ quoted ''center'' @ ''}'']
   \<and> body_of (snd (handle_one_request \<lparr>server_port = 9090, label = asc ''center'', score = 0\<rparr>
         \<lparr>command = ''POST'', path = ''/again'', request_version = ''HTTP/1.1'',
            headers = [], rfile = ''second''\<rparr>))
     = body_of (snd (handle_one_request \<lparr>server_port = 8080, label = asc ''center'', score = 0\<rparr>
         \<lparr>command = ''POST'', path = ''/'', request_version = ''HTTP/1.1'',
            headers = [], rfile = ''first''\<rparr>))"
  using consecutive_posts_same_body
    [of "\<lparr>command = ''POST'', path = ''/'', request_version = ''HTTP/1.1'',
            headers = [], rfile = ''first''\<rparr>"
        "\<lparr>command = ''POST'', path = ''/again'', request_version = ''HTTP/1.1'',
            headers = [], rfile = ''second''\<rparr>"
        "\<lparr>server_port = 9090, label = asc ''center'', score = 0\<rparr>"
        "\<lparr>server_port = 8080, label = asc ''center'', score = 0\<rparr>"]
  by (simp add: float_repr_literals encode_plain ESCAPE_ASCII_def)

text \<open>
  C6. Handling requests never changes the label or the score of the server: after any
  sequence of requests, of any methods, both are what they were.
\<close>

theorem serving_keeps_label_and_score:
  "label (fst (serve_forever srv reqs)) = label srv
   \<and> score (fst (serve_forever srv reqs)) = score srv"
proof (induction reqs arbitrary: srv)
  case Nil
  show ?case by simp
next
  case (Cons rq reqs)
  let ?srv1 = "fst (handle_one_request srv rq)"
  have step: "label ?srv1 = label srv \<and> score ?srv1 = score srv"
    by (cases "command rq = ''POST''")
       (simp_all add: handle_one_request_POST handle_one_request_other do_POST_def)
  have "fst (serve_forever srv (rq # reqs)) = fst (serve_forever ?srv1 reqs)"
    by (simp add: split_beta Let_def)
  with Cons.IH [of ?srv1] step show ?case by simp
qed

text \<open>
  C7. If the constructor of \<^verbatim>\<open>HTTPServer\<close> fails to bind the port, its exception leaves
  \<^verbatim>\<open>run\<close> and the main block uncaught: the process ends with that exception and exit
  status 1, having printed nothing, bound nothing and handled no request.
\<close>

theorem bind_failure_propagates:
  assumes "length argv = 3" and "py_int E (argv ! 2) = Inr port"
    and "HTTPServer_init E port = Inl e"
  shows "run E reqs (argv ! 1) port = ([], Raised e)
       \<and> main E reqs argv = ([], Raised e)
       \<and> exit_status (snd (main E reqs argv)) = Some 1"
proof -
  from assms(3) have r: "run E reqs (argv ! 1) port = ([], Raised e)"
    by (simp add: run_def Let_def)
  with assms(1,2) have m: "main E reqs argv = ([], Raised e)"
    by (simp add: main_def)
  from HTTPServer_init_error [OF assms(3)] have "exit_status (Raised e) = Some 1"
    by auto
  with r m show ?thesis by simp
qed

theorem bind_failure_propagates_witness:
  "length [asc ''mock_llm_service.py'', asc ''left'', asc ''80''] = 3
   \<and> py_int example_env ([asc ''mock_llm_service.py'', asc ''left'', asc ''80''] ! 2) = Inr 80
   \<and> HTTPServer_init example_env 80 = Inl OSError
   \<and> main example_env
         [\<lparr>command = ''POST'', path = ''/'', request_version = ''HTTP/1.1'',
            headers = [], rfile = []\<rparr>]
         [asc ''mock_llm_service.py'', asc ''left'', asc ''80'']
       = ([], Raised OSError)"
proof -
  let ?argv = "[asc ''mock_llm_service.py'', asc ''left'', asc ''80'']"
  have a: "length ?argv = 3" by simp
  have b: "py_int example_env (?argv ! 2) = Inr 80"
    by (simp add: py_int_examples)
  have c: "HTTPServer_init example_env 80 = Inl OSError"
    by (simp add: HTTPServer_init_def example_env_def)
  from bind_failure_propagates [OF a b c] a b c show ?thesis
    by simp
qed

text \<open>
  C8. With three arguments, if \<^verbatim>\<open>int\<close> rejects the port argument, the process ends
  with an uncaught \<^verbatim>\<open>ValueError\<close> and exit status 1, before any socket is bound. It has
  printed nothing, the usage line included: this is neither the usage exit nor a bind
  failure. The strings that \<^verbatim>\<open>int\<close> rejects are those that are no decimal integer in
  its reading: by \<open>py_int_rejects\<close>, among the ASCII strings, every one with a character
  other than a digit, an underscore, a sign or white space, and every one without a digit.
\<close>

theorem bad_port_value_error:
  assumes "length argv = 3" and "isl (py_int E (argv ! 2))"
  shows "main E reqs argv = ([], Raised ValueError)
       \<and> exit_status (snd (main E reqs argv)) = Some 1
       \<and> (\<forall>p. Bound p \<notin> set (fst (main E reqs argv)))"
proof -
  from assms(2) obtain e where "py_int E (argv ! 2) = Inl e"
    by (cases "py_int E (argv ! 2)") simp_all
  with py_int_error [OF this] have "py_int E (argv ! 2) = Inl ValueError"
    by simp
  with assms(1) show ?thesis
    by (simp add: main_def)
qed

theorem bad_port_value_error_witness:
  "length [asc ''mock_llm_service.py'', asc ''left'', asc ''http''] = 3
   \<and> isl (py_int example_env ([asc ''mock_llm_service.py'', asc ''left'', asc ''http''] ! 2))
   \<and> main example_env [] [asc ''mock_llm_service.py'', asc ''left'', asc ''http'']
       = ([], Raised ValueError)"
proof -
  let ?argv = "[asc ''mock_llm_service.py'', asc ''left'', asc ''http'']"
  have a: "length ?argv = 3" by simp
  have b: "isl (py_int example_env (?argv ! 2))"
    by (simp add: py_int_examples)
  from bad_port_value_error [OF a b] a b show ?thesis
    by simp
qed

text \<open>
  C9. A request whose method is not \<^verbatim>\<open>POST\<close> does not reach \<^verbatim>\<open>do_POST\<close>: the base
  handler answers it with \<^verbatim>\<open>send_error(501, "Unsupported method (%r)" % command)\<close>, and
  no JSON body is written.
\<close>

theorem other_method_501:
  assumes "command rq \<noteq> ''POST''"
  shows "handle_one_request srv rq =
           (srv, [Send_error 501 ''Unsupported method (%r)'' (command rq)])
       \<and> status_of (request_version rq) (snd (handle_one_request srv rq))
           = (if request_version rq = ''HTTP/0.9'' then None else Some 501)
       \<and> snd (handle_one_request srv rq) \<noteq> snd (do_POST srv rq)
       \<and> body_of (snd (handle_one_request srv rq)) = []"
  using assms by (simp add: handle_one_request_other do_POST_def)

theorem other_method_501_witness:
  "command \<lparr>command = ''GET'', path = ''/'', request_version = ''HTTP/1.1'',
            headers = [], rfile = []\<rparr> \<noteq> ''POST''
   \<and> handle_one_request \<lparr>server_port = 8080, label = asc ''left'', score = - 1\<rparr>
         \<lparr>command = ''GET'', path = ''/'', request_version = ''HTTP/1.1'',
            headers = [], rfile = []\<rparr>
       = (\<lparr>server_port = 8080, label = asc ''left'', score = - 1\<rparr>,
          [Send_error 501 ''Unsupported method (%r)'' ''GET''])
   \<and> handle_one_request \<lparr>server_port = 8080, label = asc ''left'', score = - 1\<rparr>
         \<lparr>command = ''PUT'', path = ''/'', request_version = ''HTTP/1.1'',
            headers = [], rfile = []\<rparr>
       = (\<lparr>server_port = 8080, label = asc ''left'', score = - 1\<rparr>,
          [Send_error 501 ''Unsupported method (%r)'' ''PUT''])"
  using other_method_501
    [of "\<lparr>command = ''GET'', path = ''/'', request_version = ''HTTP/1.1'',
            headers = [], rfile = []\<rparr>"
        "\<lparr>server_port = 8080, label = asc ''left'', score = - 1\<rparr>"]
    other_method_501
    [of "\<lparr>command = ''PUT'', path = ''/'', request_version = ''HTTP/1.1'',
            headers = [], rfile = []\<rparr>"
        "\<lparr>server_port = 8080, label = asc ''left'', score = - 1\<rparr>"]
  by simp




end
